theory Spec2Isabelle
  imports Main
begin

section \<open>RemindMe: a shallow embedding of \<open>src/main.tsx\<close>\<close>

text \<open>
  The app has three entry points: the handler of the time input form (step 1), the
  handler of the time confirmation form (step 2) and the scheduler job \<open>reminder\<close>.
  Between step 1 and step 2 the parsed time is kept in redis by the class
  \<open>RemindMeFormDataFlow\<close>. Every handler is modelled as a function from the state of
  the services it talks to (redis, the reddit lookups, the scheduler, the ui, the
  private messages sent) to the state after it returns; an \<open>await\<close> is a sequence point.
\<close>

subsection \<open>Numbers, dates and their string forms\<close>

text \<open>
  A JavaScript \<open>number\<close> is used here only as the time value of a \<open>Date\<close>: a whole
  number of milliseconds since the epoch, or \<open>NaN\<close> for an invalid date. Fractions, the
  infinities, the sign of zero, the limits of the double format and the range of valid
  dates are not modelled. A \<open>Date\<close> object is represented by its time value, so
  \<open>new Date(x)\<close> and \<open>getTime()\<close> leave the value as it is.
\<close>

datatype number = Num int | NaN

definition digit_char :: "nat \<Rightarrow> char" where
  "digit_char d = ''0123456789'' ! d"

definition is_digit :: "char \<Rightarrow> bool" where
  "is_digit c = (48 \<le> (of_char c :: nat) \<and> (of_char c :: nat) \<le> 57)"

definition digit_val :: "char \<Rightarrow> nat" where
  "digit_val c = of_char c - 48"

fun digits :: "nat \<Rightarrow> string" where
  "digits n = (if n < 10 then [digit_char n] else digits (n div 10) @ [digit_char (n mod 10)])"

declare digits.simps [simp del]

definition digits_val :: "string \<Rightarrow> nat" where
  "digits_val s = foldl (\<lambda>acc c. 10 * acc + digit_val c) 0 s"

text \<open>
  \<open>String(x)\<close> on a number: the decimal digits, with a minus sign for a negative value,
  and the text \<open>NaN\<close> for \<open>NaN\<close>.
\<close>

definition String :: "number \<Rightarrow> string" where
  "String x = (case x of
       NaN \<Rightarrow> ''NaN''
     | Num n \<Rightarrow> if n < 0 then CHR ''-'' # digits (nat (- n)) else digits (nat n))"

text \<open>
  \<open>Number(s)\<close> on a string: the value of an optionally signed run of decimal digits, zero
  for the empty string, \<open>NaN\<close> for a string that is no numeral. The other numerals that
  JavaScript reads (a plus sign, blanks around, fractions, exponents, hexadecimal,
  \<open>Infinity\<close>) are never written by this program and are read as \<open>NaN\<close> here.
\<close>

definition Number :: "string \<Rightarrow> number" where
  "Number s = (case s of
       [] \<Rightarrow> Num 0
     | c # cs \<Rightarrow>
         if c = CHR ''-'' \<and> cs \<noteq> [] \<and> list_all is_digit cs then Num (- int (digits_val cs))
         else if list_all is_digit s then Num (int (digits_val s))
         else NaN)"

text \<open>
  The relational operators on two \<open>Date\<close> objects compare their time values; a comparison
  with \<open>NaN\<close> is false.
\<close>

fun date_le :: "number \<Rightarrow> number \<Rightarrow> bool" where
  "date_le (Num a) (Num b) = (a \<le> b)"
| "date_le _ _ = False"

fun number_less :: "number \<Rightarrow> number \<Rightarrow> bool" where
  "number_less (Num a) (Num b) = (a < b)"
| "number_less _ _ = False"

subsection \<open>The redis backend\<close>

text \<open>
  Redis holds hashes (field maps) under string keys, and a time to live in seconds for a
  key on which \<open>expire\<close> was called. Every call made to the backend is recorded in
  \<open>calls\<close>, so that "no call was made" can be stated. The calls are assumed to succeed.
\<close>

datatype redis_call =
    HSet string "(string \<times> string) list"
  | Expire string nat
  | HMGet string "string list"
  | Del string

record redis_state =
  hashes :: "string \<rightharpoonup> (string \<rightharpoonup> string)"
  ttls :: "string \<rightharpoonup> nat"
  calls :: "redis_call list"

definition redis_empty :: redis_state where
  "redis_empty = \<lparr>hashes = Map.empty, ttls = Map.empty, calls = []\<rparr>"

definition redis_hSet :: "string \<Rightarrow> (string \<times> string) list \<Rightarrow> redis_state \<Rightarrow> redis_state" where
  "redis_hSet key fieldValues r =
     r\<lparr>hashes := (hashes r)(key \<mapsto>
            fold (\<lambda>(f, v) h. h(f \<mapsto> v)) fieldValues
              (case hashes r key of None \<Rightarrow> Map.empty | Some h \<Rightarrow> h)),
       calls := calls r @ [HSet key fieldValues]\<rparr>"

definition redis_expire :: "string \<Rightarrow> nat \<Rightarrow> redis_state \<Rightarrow> redis_state" where
  "redis_expire key seconds r =
     r\<lparr>ttls := (case hashes r key of None \<Rightarrow> ttls r | Some h \<Rightarrow> (ttls r)(key \<mapsto> seconds)),
       calls := calls r @ [Expire key seconds]\<rparr>"

definition redis_hMGet :: "string \<Rightarrow> string list \<Rightarrow> redis_state \<Rightarrow> string option list \<times> redis_state" where
  "redis_hMGet key fieldNames r =
     (map (\<lambda>f. case hashes r key of None \<Rightarrow> None | Some h \<Rightarrow> h f) fieldNames,
      r\<lparr>calls := calls r @ [HMGet key fieldNames]\<rparr>)"

definition redis_del :: "string \<Rightarrow> redis_state \<Rightarrow> redis_state" where
  "redis_del key r =
     r\<lparr>hashes := (hashes r)(key := None),
       ttls := (ttls r)(key := None),
       calls := calls r @ [Del key]\<rparr>"

subsection \<open>The data of the app\<close>

definition APP_NAME :: string where
  "APP_NAME = ''RemindMe''"

definition REMINDER_JOB_NAME :: string where
  "REMINDER_JOB_NAME = ''reminder''"

record ReminderJobData =
  job_userId :: string
  job_postId :: string
  initTimestamp :: number

record RemindMeFormData =
  reminderTimestamp :: number

text \<open>
  The part of \<open>Devvit.Context\<close> that identifies the interaction: \<open>userId\<close> and \<open>postId\<close> are
  strings or undefined. The test \<open>!x\<close> holds for undefined and for the empty string.
\<close>

record Context =
  userId :: "string option"
  postId :: "string option"

record User =
  username :: string

record Post =
  title :: string
  permalink :: string

record private_message =
  pm_to :: string
  pm_subject :: string
  pm_text :: string

record scheduled_job =
  job_name :: string
  runAt :: number
  job_data :: ReminderJobData

datatype shown_form = TimeInputForm | TimeConfirmationForm RemindMeFormData

text \<open>
  The services behind a context: redis, the two reddit lookups (as they answer at the
  moment of the call), and the effects of the calls made so far: private messages sent,
  jobs handed to the scheduler, toasts and forms shown.
\<close>

record world =
  redis :: redis_state
  getUserById :: "string \<Rightarrow> User option"
  getPostById :: "string \<Rightarrow> Post option"
  sent :: "private_message list"
  jobs :: "scheduled_job list"
  toasts :: "string list"
  forms :: "shown_form list"

text \<open>
  Two things are parameters of the model: the grammar of the time parser, that is, which
  date-time expression (if any) is recognised in a text and which valid date it resolves
  to against the clock of the moment of the call (here its time value), and
  \<open>Date.prototype.toUTCString\<close>.
\<close>

record platform =
  recognise :: "string \<Rightarrow> int \<Rightarrow> int option"
  toUTCString :: "number \<Rightarrow> string"

text \<open>
  Modelled from the spec: the time parser, \<open>chrono.parseDate\<close> of the chrono-node
  library, of which only the call at line 150 of \<open>main.tsx\<close> is in the sources. By
  section 4.1 of the specification, \<open>parse(text, referenceNow)\<close> is a timestamp or a
  failure: it returns the failure, and no fallback value, when no date-time expression
  is recognised in the text; otherwise it returns the timestamp that the recognised
  expression resolves to relative to \<open>referenceNow\<close>. The failure is null in the code,
  \<open>None\<close> here.
\<close>

definition parseDate :: "platform \<Rightarrow> string \<Rightarrow> int \<Rightarrow> int option" where
  "parseDate P text referenceNow =
     (case recognise P text referenceNow of
        None \<Rightarrow> None
      | Some resolved \<Rightarrow> Some resolved)"

subsection \<open>The scheduler job\<close>

definition onRun :: "platform \<Rightarrow> ReminderJobData \<Rightarrow> world \<Rightarrow> world" where
  "onRun P event_data w =
     (let user = getUserById w (job_userId event_data);
          post = getPostById w (job_postId event_data)
      in case (user, post) of
           (Some user, Some post) \<Rightarrow>
             let message =
                   ''Hey! You asked me to remind you about ['' @ title post @ ''](''
                   @ permalink post @ ''). You set this reminder on ''
                   @ toUTCString P (initTimestamp event_data) @ ''!''
             in w\<lparr>sent := sent w @
                   [\<lparr>pm_to = username user,
                     pm_subject = ''Reminder for '' @ [CHR 0x27] @ title post @ [CHR 0x27]
                                  @ '' - '' @ APP_NAME,
                     pm_text = message\<rparr>]\<rparr>
         | _ \<Rightarrow> w)"

subsection \<open>The handoff between the two forms\<close>

definition setDataAfterTimeInput :: "Context \<Rightarrow> RemindMeFormData \<Rightarrow> redis_state \<Rightarrow> redis_state" where
  "setDataAfterTimeInput context d r =
     (case (userId context, postId context) of
        (Some uid, Some pid) \<Rightarrow>
          if uid = [] \<or> pid = [] then r
          else
            let key = uid @ ''::'' @ pid;
                r1 = redis_hSet key [(''reminderTimestamp'', String (reminderTimestamp d))] r
            in redis_expire key (1 * 60 * 60) r1
      | _ \<Rightarrow> r)"

definition retrieveDataAfterTimeConfirmation ::
    "Context \<Rightarrow> redis_state \<Rightarrow> RemindMeFormData option \<times> redis_state" where
  "retrieveDataAfterTimeConfirmation context r =
     (case (userId context, postId context) of
        (Some uid, Some pid) \<Rightarrow>
          if uid = [] \<or> pid = [] then (None, r)
          else
            let key = uid @ ''::'' @ pid;
                (vals, r1) = redis_hMGet key [''reminderTimestamp''] r;
                stored = (case vals of [] \<Rightarrow> None | v # _ \<Rightarrow> v);
                r2 = redis_del key r1
            in (case stored of
                  None \<Rightarrow> (None, r2)
                | Some s \<Rightarrow>
                    if s = [] then (None, r2)
                    else (Some \<lparr>reminderTimestamp = Number s\<rparr>, r2))
      | _ \<Rightarrow> (None, r))"

subsection \<open>The two form handlers and the menu item\<close>

definition timeConfirmationForm_onSubmit :: "platform \<Rightarrow> Context \<Rightarrow> int \<Rightarrow> world \<Rightarrow> world" where
  "timeConfirmationForm_onSubmit P context now w =
     (case postId context of
        None \<Rightarrow> w
      | Some pid \<Rightarrow>
          if pid = [] then w
          else (case userId context of
              None \<Rightarrow> w\<lparr>toasts := toasts w @ [''I can only remind you if you're logged in'']\<rparr>
            | Some uid \<Rightarrow>
                if uid = [] then
                  w\<lparr>toasts := toasts w @ [''I can only remind you if you're logged in'']\<rparr>
                else
                  let (d, r') = retrieveDataAfterTimeConfirmation context (redis w);
                      w1 = w\<lparr>redis := r'\<rparr>
                  in (case d of
                        None \<Rightarrow>
                          w1\<lparr>toasts := toasts w1 @
                                [''An error occured while setting the reminder'']\<rparr>
                      | Some d \<Rightarrow>
                          let reminderDate = reminderTimestamp d;
                              nowDate = Num now
                          in if date_le reminderDate nowDate then
                               w1\<lparr>toasts := toasts w1 @ [''I can't remind you in the past!'']\<rparr>
                             else
                               w1\<lparr>jobs := jobs w1 @
                                     [\<lparr>job_name = REMINDER_JOB_NAME,
                                       runAt = reminderDate,
                                       job_data = \<lparr>job_userId = uid, job_postId = pid,
                                                   initTimestamp = nowDate\<rparr>\<rparr>],
                                   toasts := toasts w1 @
                                     [''Gotcha! I'll send you a message about this post at ''
                                      @ toUTCString P reminderDate @ ''!'']\<rparr>)))"

definition timeInputForm_onSubmit :: "platform \<Rightarrow> Context \<Rightarrow> int \<Rightarrow> string \<Rightarrow> world \<Rightarrow> world" where
  "timeInputForm_onSubmit P context now timeString w =
     (case parseDate P timeString now of
        None \<Rightarrow> w\<lparr>toasts := toasts w @ [''I couldn't quite get that!'']\<rparr>
      | Some t \<Rightarrow>
          let d = \<lparr>reminderTimestamp = Num t\<rparr>;
              w1 = w\<lparr>redis := setDataAfterTimeInput context d (redis w)\<rparr>
          in w1\<lparr>forms := forms w1 @ [TimeConfirmationForm d]\<rparr>)"

definition menuItem_onPress :: "world \<Rightarrow> world" where
  "menuItem_onPress w = w\<lparr>forms := forms w @ [TimeInputForm]\<rparr>"

subsection \<open>Runs of the app\<close>

text \<open>
  What can happen to an installation, one event at a time: the menu item is pressed, one
  of the two forms is submitted (with the context of the interaction and the reading of
  the clock at that moment), the scheduler runs the job on some payload, redis drops a
  key whose time to live has run out, or users and posts change on reddit. A run starts
  from an empty redis with nothing sent, scheduled or shown.
\<close>

definition redis_key_expires :: "string \<Rightarrow> redis_state \<Rightarrow> redis_state" where
  "redis_key_expires key r =
     (case ttls r key of
        None \<Rightarrow> r
      | Some seconds \<Rightarrow> r\<lparr>hashes := (hashes r)(key := None), ttls := (ttls r)(key := None)\<rparr>)"

datatype event =
    PressMenuItem
  | SubmitTimeInput Context int string
  | SubmitTimeConfirmation Context int
  | RunJob ReminderJobData
  | KeyExpires string
  | RedditChanges "string \<Rightarrow> User option" "string \<Rightarrow> Post option"

fun step :: "platform \<Rightarrow> event \<Rightarrow> world \<Rightarrow> world" where
  "step P PressMenuItem w = menuItem_onPress w"
| "step P (SubmitTimeInput context now timeString) w =
     timeInputForm_onSubmit P context now timeString w"
| "step P (SubmitTimeConfirmation context now) w = timeConfirmationForm_onSubmit P context now w"
| "step P (RunJob event_data) w = onRun P event_data w"
| "step P (KeyExpires key) w = w\<lparr>redis := redis_key_expires key (redis w)\<rparr>"
| "step P (RedditChanges users posts) w = w\<lparr>getUserById := users, getPostById := posts\<rparr>"

definition init_world :: "(string \<Rightarrow> User option) \<Rightarrow> (string \<Rightarrow> Post option) \<Rightarrow> world" where
  "init_world users posts =
     \<lparr>redis = redis_empty, getUserById = users, getPostById = posts,
      sent = [], jobs = [], toasts = [], forms = []\<rparr>"

definition run :: "platform \<Rightarrow> event list \<Rightarrow> world \<Rightarrow> world" where
  "run P events w = fold (step P) events w"

subsection \<open>Invariants of a run\<close>

text \<open>
  The handoff records in redis are written by \<open>setDataAfterTimeInput\<close> only, from the
  time value of a valid date: every stored \<open>reminderTimestamp\<close> is the string form of a
  whole number. Every job handed to the scheduler was created before its \<open>runAt\<close>.
\<close>

definition handoff_numeric :: "redis_state \<Rightarrow> bool" where
  "handoff_numeric r \<longleftrightarrow>
     (\<forall>key h s. hashes r key = Some h \<longrightarrow> h ''reminderTimestamp'' = Some s
        \<longrightarrow> (\<exists>n. s = String (Num n)))"

definition jobs_future :: "scheduled_job list \<Rightarrow> bool" where
  "jobs_future js \<longleftrightarrow> (\<forall>j \<in> set js. number_less (initTimestamp (job_data j)) (runAt j))"

definition run_inv :: "world \<Rightarrow> bool" where
  "run_inv w \<longleftrightarrow> handoff_numeric (redis w) \<and> jobs_future (jobs w)"

subsection \<open>Concrete instances\<close>

text \<open>
  Stand-ins for the two parameters, to run the model on concrete inputs: a grammar
  that knows two phrases, and the decimal form of the time value in place of the UTC
  string. Alice, her post, and the post after its title was edited.
\<close>

definition demo_platform :: platform where
  "demo_platform =
     \<lparr>recognise = (\<lambda>text now.
        if text = ''in one hour'' then Some (now + 3600000)
        else if text = ''yesterday'' then Some (now - 86400000)
        else None),
      toUTCString = String\<rparr>"

definition alice_on_post :: Context where
  "alice_on_post = \<lparr>userId = Some ''t2_alice'', postId = Some ''t3_postx''\<rparr>"

definition demo_users :: "string \<Rightarrow> User option" where
  "demo_users = (\<lambda>id. if id = ''t2_alice'' then Some \<lparr>username = ''alice''\<rparr> else None)"

definition demo_posts :: "string \<Rightarrow> Post option" where
  "demo_posts = (\<lambda>id. if id = ''t3_postx''
     then Some \<lparr>title = ''Post X'', permalink = ''/r/test/comments/postx/''\<rparr> else None)"

definition demo_posts_edited :: "string \<Rightarrow> Post option" where
  "demo_posts_edited = (\<lambda>id. if id = ''t3_postx''
     then Some \<lparr>title = ''Post X, edited'', permalink = ''/r/test/comments/postx/''\<rparr> else None)"

section \<open>Properties\<close>

subsection \<open>The string form of a number reads back as the number\<close>

lemma below_ten:
  assumes "d < (10::nat)"
  shows "d \<in> {0, 1, 2, 3, 4, 5, 6, 7, 8, 9}"
  using assms by auto

lemma digit_char_is_digit: "d < 10 \<Longrightarrow> is_digit (digit_char d)"
  by (drule below_ten) (auto simp add: is_digit_def digit_char_def)

lemma digit_val_digit_char: "d < 10 \<Longrightarrow> digit_val (digit_char d) = d"
  by (drule below_ten) (auto simp add: digit_val_def digit_char_def)

lemma digits_all_digit: "list_all is_digit (digits n)"
proof (induction n rule: digits.induct)
  case (1 n)
  show ?case
  proof (cases "n < 10")
    case True
    then show ?thesis by (subst digits.simps) (simp add: digit_char_is_digit)
  next
    case False
    with "1" have "list_all is_digit (digits (n div 10))" by simp
    moreover have "is_digit (digit_char (n mod 10))" by (simp add: digit_char_is_digit)
    ultimately show ?thesis using False by (subst digits.simps) simp
  qed
qed

lemma digits_not_Nil: "digits n \<noteq> []"
  by (subst digits.simps) simp

lemma digits_val_snoc: "digits_val (s @ [c]) = 10 * digits_val s + digit_val c"
  by (simp add: digits_val_def)

lemma digits_val_digits: "digits_val (digits n) = n"
proof (induction n rule: digits.induct)
  case (1 n)
  show ?case
  proof (cases "n < 10")
    case True
    then show ?thesis
      by (subst digits.simps) (simp add: digits_val_def digit_val_digit_char)
  next
    case False
    with "1" have ih: "digits_val (digits (n div 10)) = n div 10" by simp
    have "digits_val (digits n)
        = 10 * digits_val (digits (n div 10)) + digit_val (digit_char (n mod 10))"
      using False by (subst digits.simps) (simp add: digits_val_snoc)
    also have "\<dots> = 10 * (n div 10) + n mod 10"
      by (simp add: ih digit_val_digit_char)
    also have "\<dots> = n" by simp
    finally show ?thesis .
  qed
qed

lemma minus_not_digit: "\<not> is_digit CHR ''-''"
  by (simp add: is_digit_def)

lemma digits_hd_not_minus: "digits n = c # cs \<Longrightarrow> c \<noteq> CHR ''-''"
  using digits_all_digit [of n] minus_not_digit by auto

lemma Number_digits: "Number (digits n) = Num (int n)"
proof (cases "digits n")
  case Nil
  then show ?thesis using digits_not_Nil by blast
next
  case (Cons c cs)
  have "list_all is_digit (c # cs)" using digits_all_digit [of n] Cons by simp
  moreover have "c \<noteq> CHR ''-''" using Cons by (rule digits_hd_not_minus)
  moreover have "digits_val (c # cs) = n" using digits_val_digits [of n] Cons by simp
  ultimately show ?thesis using Cons by (simp add: Number_def)
qed

lemma Number_minus_digits: "Number (CHR ''-'' # digits n) = Num (- int n)"
  by (simp add: Number_def digits_not_Nil digits_all_digit digits_val_digits)

lemma Number_String: "Number (String x) = x"
proof (cases x)
  case (Num n)
  then show ?thesis
    by (simp add: String_def Number_digits Number_minus_digits)
next
  case NaN
  then show ?thesis by (simp add: String_def Number_def is_digit_def)
qed

lemma String_not_Nil: "String x \<noteq> []"
  by (cases x) (simp_all add: String_def digits_not_Nil)

subsection \<open>The handoff store\<close>

text \<open>What the two operations do when both identities are there, and when one is not.\<close>

lemma setData_present:
  assumes "userId c = Some uid" "postId c = Some pid" "uid \<noteq> []" "pid \<noteq> []"
  shows "setDataAfterTimeInput c d r =
    r\<lparr>hashes := (hashes r)(uid @ ''::'' @ pid \<mapsto>
           (case hashes r (uid @ ''::'' @ pid) of None \<Rightarrow> Map.empty | Some h \<Rightarrow> h)
             (''reminderTimestamp'' \<mapsto> String (reminderTimestamp d))),
      ttls := (ttls r)(uid @ ''::'' @ pid \<mapsto> 3600),
      calls := calls r @
        [HSet (uid @ ''::'' @ pid) [(''reminderTimestamp'', String (reminderTimestamp d))],
         Expire (uid @ ''::'' @ pid) 3600]\<rparr>"
  using assms
  by (simp add: setDataAfterTimeInput_def redis_hSet_def redis_expire_def Let_def)

lemma retrieve_present:
  assumes "userId c = Some uid" "postId c = Some pid" "uid \<noteq> []" "pid \<noteq> []"
  shows "retrieveDataAfterTimeConfirmation c r =
    ((case hashes r (uid @ ''::'' @ pid) of
        None \<Rightarrow> None
      | Some h \<Rightarrow> (case h ''reminderTimestamp'' of
            None \<Rightarrow> None
          | Some s \<Rightarrow> if s = [] then None else Some \<lparr>reminderTimestamp = Number s\<rparr>)),
     r\<lparr>hashes := (hashes r)(uid @ ''::'' @ pid := None),
       ttls := (ttls r)(uid @ ''::'' @ pid := None),
       calls := calls r @
         [HMGet (uid @ ''::'' @ pid) [''reminderTimestamp''], Del (uid @ ''::'' @ pid)]\<rparr>)"
  using assms
  by (simp add: retrieveDataAfterTimeConfirmation_def redis_hMGet_def redis_del_def Let_def
      split: option.split)

lemma setData_absent:
  assumes "userId c = None \<or> userId c = Some [] \<or> postId c = None \<or> postId c = Some []"
  shows "setDataAfterTimeInput c d r = r"
  using assms
  by (auto simp add: setDataAfterTimeInput_def split: option.splits)

lemma retrieve_absent:
  assumes "userId c = None \<or> userId c = Some [] \<or> postId c = None \<or> postId c = Some []"
  shows "retrieveDataAfterTimeConfirmation c r = (None, r)"
  using assms
  by (auto simp add: retrieveDataAfterTimeConfirmation_def split: option.splits)

lemma ids_cases:
  obtains (present) uid pid where
      "userId c = Some uid" "postId c = Some pid" "uid \<noteq> []" "pid \<noteq> []"
    | (absent) "userId c = None \<or> userId c = Some [] \<or> postId c = None \<or> postId c = Some []"
  by (cases "userId c"; cases "postId c") auto

lemma retrieve_Some_ids:
  assumes "fst (retrieveDataAfterTimeConfirmation c r) = Some d"
  obtains uid pid where "userId c = Some uid" "postId c = Some pid" "uid \<noteq> []" "pid \<noteq> []"
proof (cases c rule: ids_cases)
  case (present uid pid)
  then show ?thesis by (rule that)
next
  case absent
  then have "retrieveDataAfterTimeConfirmation c r = (None, r)"
    by (rule retrieve_absent)
  with assms show ?thesis by simp
qed

lemma retrieve_after_setData:
  assumes "userId c = Some uid" "postId c = Some pid" "uid \<noteq> []" "pid \<noteq> []"
  shows "fst (retrieveDataAfterTimeConfirmation c (setDataAfterTimeInput c d r)) = Some d"
  by (simp add: retrieve_present [OF assms] setData_present [OF assms]
      Number_String String_not_Nil)

lemma retrieve_after_retrieve:
  "fst (retrieveDataAfterTimeConfirmation c (snd (retrieveDataAfterTimeConfirmation c r))) = None"
proof (cases c rule: ids_cases)
  case (present uid pid)
  show ?thesis
    by (simp add: retrieve_present [OF present])
next
  case absent
  then have "retrieveDataAfterTimeConfirmation c r = (None, r)" for r
    by (rule retrieve_absent)
  then show ?thesis by simp
qed

text \<open>
  Claim C1. The handoff is single-use: after a \<open>retrieveDataAfterTimeConfirmation\<close> that
  returned data for a context, a second one for the same context (the same key), with
  nothing written in between, returns null, because the first one deleted the key after
  reading it.
\<close>

theorem handoff_single_use:
  assumes "fst (retrieveDataAfterTimeConfirmation c r) = Some d"
  shows "fst (retrieveDataAfterTimeConfirmation c (snd (retrieveDataAfterTimeConfirmation c r))) = None"
  by (rule retrieve_after_retrieve)

theorem handoff_single_use_witness:
  "fst (retrieveDataAfterTimeConfirmation alice_on_post
          (setDataAfterTimeInput alice_on_post \<lparr>reminderTimestamp = Num 1730003600000\<rparr> redis_empty))
     = Some \<lparr>reminderTimestamp = Num 1730003600000\<rparr>
   \<and> fst (retrieveDataAfterTimeConfirmation alice_on_post
          (snd (retrieveDataAfterTimeConfirmation alice_on_post
             (setDataAfterTimeInput alice_on_post \<lparr>reminderTimestamp = Num 1730003600000\<rparr>
                redis_empty))))
     = None"
proof -
  have first: "fst (retrieveDataAfterTimeConfirmation alice_on_post
          (setDataAfterTimeInput alice_on_post \<lparr>reminderTimestamp = Num 1730003600000\<rparr> redis_empty))
     = Some \<lparr>reminderTimestamp = Num 1730003600000\<rparr>"
    by (rule retrieve_after_setData [of _ "''t2_alice''" "''t3_postx''"])
       (simp_all add: alice_on_post_def)
  show ?thesis
    using first handoff_single_use [OF first] by simp
qed

text \<open>
  Claim C5. For every context with both identities and every request value, whatever
  redis held before: \<open>retrieveDataAfterTimeConfirmation\<close> right after
  \<open>setDataAfterTimeInput\<close> for the same context returns exactly the data that was written.
  The \<open>reminderTimestamp\<close> goes through \<open>String\<close> on the way in and \<open>Number\<close> on the way
  out and comes back as the same value.
\<close>

theorem handoff_put_then_take:
  assumes "userId c = Some uid" "postId c = Some pid" "uid \<noteq> []" "pid \<noteq> []"
  shows "fst (retrieveDataAfterTimeConfirmation c (setDataAfterTimeInput c d r)) = Some d"
  using assms by (rule retrieve_after_setData)

theorem handoff_put_then_take_witness:
  "userId alice_on_post = Some ''t2_alice'' \<and> postId alice_on_post = Some ''t3_postx''
   \<and> ''t2_alice'' \<noteq> [] \<and> ''t3_postx'' \<noteq> []
   \<and> fst (retrieveDataAfterTimeConfirmation alice_on_post
        (setDataAfterTimeInput alice_on_post \<lparr>reminderTimestamp = Num (- 86400000)\<rparr> redis_empty))
      = Some \<lparr>reminderTimestamp = Num (- 86400000)\<rparr>"
  using handoff_put_then_take [of alice_on_post "''t2_alice''" "''t3_postx''"
      "\<lparr>reminderTimestamp = Num (- 86400000)\<rparr>" redis_empty]
  by (simp add: alice_on_post_def)

text \<open>
  Claim C6. With both identities there, \<open>setDataAfterTimeInput\<close> overwrites whatever
  \<open>reminderTimestamp\<close> was stored under the key \<open>userId::postId\<close> with the new one, and
  sets the time to live of the key to one hour (3600 seconds) whatever it was before, by
  one \<open>hSet\<close> and one \<open>expire\<close>. A key holds one record, so after two writes for the
  same pair the one that is read back is the last.
\<close>

theorem setData_overwrites:
  assumes "userId c = Some uid" "postId c = Some pid" "uid \<noteq> []" "pid \<noteq> []"
  shows "fst (redis_hMGet (uid @ ''::'' @ pid) [''reminderTimestamp''] (setDataAfterTimeInput c d r))
           = [Some (String (reminderTimestamp d))]
       \<and> ttls (setDataAfterTimeInput c d r) (uid @ ''::'' @ pid) = Some (60 * 60)
       \<and> calls (setDataAfterTimeInput c d r) = calls r @
           [HSet (uid @ ''::'' @ pid) [(''reminderTimestamp'', String (reminderTimestamp d))],
            Expire (uid @ ''::'' @ pid) (60 * 60)]
       \<and> fst (retrieveDataAfterTimeConfirmation c
              (setDataAfterTimeInput c d (setDataAfterTimeInput c d0 r))) = Some d"
proof -
  have "fst (retrieveDataAfterTimeConfirmation c
          (setDataAfterTimeInput c d (setDataAfterTimeInput c d0 r))) = Some d"
    using assms by (rule retrieve_after_setData)
  moreover have "fst (redis_hMGet (uid @ ''::'' @ pid) [''reminderTimestamp'']
          (setDataAfterTimeInput c d r)) = [Some (String (reminderTimestamp d))]"
    by (simp add: setData_present [OF assms] redis_hMGet_def)
  moreover have "ttls (setDataAfterTimeInput c d r) (uid @ ''::'' @ pid) = Some (60 * 60)"
    by (simp add: setData_present [OF assms])
  moreover have "calls (setDataAfterTimeInput c d r) = calls r @
           [HSet (uid @ ''::'' @ pid) [(''reminderTimestamp'', String (reminderTimestamp d))],
            Expire (uid @ ''::'' @ pid) (60 * 60)]"
    by (simp add: setData_present [OF assms])
  ultimately show ?thesis by blast
qed

theorem setData_overwrites_witness:
  "userId alice_on_post = Some ''t2_alice'' \<and> postId alice_on_post = Some ''t3_postx''
   \<and> ''t2_alice'' \<noteq> [] \<and> ''t3_postx'' \<noteq> []
   \<and> fst (redis_hMGet ''t2_alice::t3_postx'' [''reminderTimestamp'']
        (setDataAfterTimeInput alice_on_post \<lparr>reminderTimestamp = Num 1730003600000\<rparr>
          (setDataAfterTimeInput alice_on_post \<lparr>reminderTimestamp = Num 5\<rparr> redis_empty)))
       = [Some ''1730003600000'']
   \<and> ttls (setDataAfterTimeInput alice_on_post \<lparr>reminderTimestamp = Num 1730003600000\<rparr>
          (setDataAfterTimeInput alice_on_post \<lparr>reminderTimestamp = Num 5\<rparr> redis_empty))
        ''t2_alice::t3_postx'' = Some 3600
   \<and> fst (retrieveDataAfterTimeConfirmation alice_on_post
        (setDataAfterTimeInput alice_on_post \<lparr>reminderTimestamp = Num 1730003600000\<rparr>
          (setDataAfterTimeInput alice_on_post \<lparr>reminderTimestamp = Num 7\<rparr>
            (setDataAfterTimeInput alice_on_post \<lparr>reminderTimestamp = Num 5\<rparr> redis_empty))))
       = Some \<lparr>reminderTimestamp = Num 1730003600000\<rparr>"
proof -
  have str: "String (Num 1730003600000) = ''1730003600000''"
    by (simp add: String_def digits.simps digit_char_def)
  show ?thesis
    using setData_overwrites [of alice_on_post "''t2_alice''" "''t3_postx''"
        "\<lparr>reminderTimestamp = Num 1730003600000\<rparr>"
        "setDataAfterTimeInput alice_on_post \<lparr>reminderTimestamp = Num 5\<rparr> redis_empty"
        "\<lparr>reminderTimestamp = Num 7\<rparr>"]
    by (simp add: alice_on_post_def str)
qed

text \<open>
  Claim C7. If \<open>userId\<close> or \<open>postId\<close> is undefined or empty, \<open>setDataAfterTimeInput\<close>
  returns without touching redis and \<open>retrieveDataAfterTimeConfirmation\<close> returns null
  without touching redis: the state of the backend, with its record of the calls made,
  is the one before. Neither raises.
\<close>

theorem handoff_noop_without_identity:
  assumes "userId c = None \<or> userId c = Some [] \<or> postId c = None \<or> postId c = Some []"
  shows "setDataAfterTimeInput c d r = r
       \<and> retrieveDataAfterTimeConfirmation c r = (None, r)"
  using assms by (simp add: setData_absent retrieve_absent)

theorem handoff_noop_without_identity_witness:
  "(userId \<lparr>userId = None, postId = Some ''t3_postx''\<rparr> = None
    \<or> userId \<lparr>userId = None, postId = Some ''t3_postx''\<rparr> = Some []
    \<or> postId \<lparr>userId = None, postId = Some ''t3_postx''\<rparr> = None
    \<or> postId \<lparr>userId = None, postId = Some ''t3_postx''\<rparr> = Some [])
   \<and> setDataAfterTimeInput \<lparr>userId = None, postId = Some ''t3_postx''\<rparr>
        \<lparr>reminderTimestamp = Num 1730003600000\<rparr> redis_empty = redis_empty
   \<and> retrieveDataAfterTimeConfirmation \<lparr>userId = None, postId = Some ''t3_postx''\<rparr> redis_empty
        = (None, redis_empty)
   \<and> calls redis_empty = []"
  using handoff_noop_without_identity [of "\<lparr>userId = None, postId = Some ''t3_postx''\<rparr>"
      "\<lparr>reminderTimestamp = Num 1730003600000\<rparr>" redis_empty]
  by (simp add: redis_empty_def)

subsection \<open>The time input form\<close>

text \<open>
  Claim C8. For every input of step 1 in which no date-time expression is recognised,
  the parser returns the failure (null), never a timestamp: in particular not the
  current time and not zero. The handler then shows the toast "I couldn't quite get
  that!" and returns: nothing is written to redis and no call is made to it, the
  confirmation form is not shown, and nothing is scheduled or sent.
\<close>

theorem input_not_understood:
  assumes "recognise P timeString now = None"
  shows "parseDate P timeString now = None
       \<and> parseDate P timeString now \<noteq> Some now
       \<and> parseDate P timeString now \<noteq> Some 0
       \<and> toasts (timeInputForm_onSubmit P c now timeString w)
           = toasts w @ [''I couldn't quite get that!'']
       \<and> redis (timeInputForm_onSubmit P c now timeString w) = redis w
       \<and> forms (timeInputForm_onSubmit P c now timeString w) = forms w
       \<and> jobs (timeInputForm_onSubmit P c now timeString w) = jobs w
       \<and> sent (timeInputForm_onSubmit P c now timeString w) = sent w"
  using assms by (simp add: timeInputForm_onSubmit_def parseDate_def)

text \<open>The witness is scenario C of the specification, the input "asdkjhasd".\<close>

theorem input_not_understood_witness:
  "recognise demo_platform ''asdkjhasd'' 1730000000000 = None
   \<and> parseDate demo_platform ''asdkjhasd'' 1730000000000 = None
   \<and> toasts (timeInputForm_onSubmit demo_platform alice_on_post 1730000000000 ''asdkjhasd''
        (init_world demo_users demo_posts)) = [''I couldn't quite get that!'']
   \<and> redis (timeInputForm_onSubmit demo_platform alice_on_post 1730000000000 ''asdkjhasd''
        (init_world demo_users demo_posts)) = redis_empty
   \<and> forms (timeInputForm_onSubmit demo_platform alice_on_post 1730000000000 ''asdkjhasd''
        (init_world demo_users demo_posts)) = []"
  using input_not_understood [of demo_platform "''asdkjhasd''" 1730000000000 alice_on_post
      "init_world demo_users demo_posts"]
  by (simp add: demo_platform_def init_world_def)

subsection \<open>The time confirmation form\<close>

text \<open>
  Claim C2. In every submission of the confirmation form in which a reminder time was
  retrieved and that time is not after the current time (\<open>reminderDate <= nowDate\<close>), no
  job is handed to the scheduler: the handler shows the toast "I can't remind you in the
  past!" and returns before \<open>runJob\<close>.
\<close>

theorem no_job_in_the_past:
  assumes "fst (retrieveDataAfterTimeConfirmation c (redis w)) = Some d"
    and "date_le (reminderTimestamp d) (Num now)"
  shows "jobs (timeConfirmationForm_onSubmit P c now w) = jobs w
       \<and> toasts (timeConfirmationForm_onSubmit P c now w)
           = toasts w @ [''I can't remind you in the past!'']"
proof -
  from assms(1) obtain uid pid where
    ids: "userId c = Some uid" "postId c = Some pid" "uid \<noteq> []" "pid \<noteq> []"
    by (rule retrieve_Some_ids)
  obtain r' where r': "retrieveDataAfterTimeConfirmation c (redis w) = (Some d, r')"
    using assms(1) by (cases "retrieveDataAfterTimeConfirmation c (redis w)") simp
  show ?thesis
    using ids r' assms(2)
    by (simp add: timeConfirmationForm_onSubmit_def Let_def)
qed

text \<open>
  The witness is scenario B of the specification: "yesterday" is entered at time T and
  parsed to T - 24h; the confirmation at T + 5s is rejected and no job exists.
\<close>

theorem no_job_in_the_past_witness:
  "fst (retrieveDataAfterTimeConfirmation alice_on_post
      (redis (timeInputForm_onSubmit demo_platform alice_on_post 1730000000000 ''yesterday''
         (init_world demo_users demo_posts))))
     = Some \<lparr>reminderTimestamp = Num 1729913600000\<rparr>
   \<and> date_le (reminderTimestamp \<lparr>reminderTimestamp = Num 1729913600000\<rparr>) (Num 1730000005000)
   \<and> jobs (timeConfirmationForm_onSubmit demo_platform alice_on_post 1730000005000
        (timeInputForm_onSubmit demo_platform alice_on_post 1730000000000 ''yesterday''
           (init_world demo_users demo_posts))) = []
   \<and> toasts (timeConfirmationForm_onSubmit demo_platform alice_on_post 1730000005000
        (timeInputForm_onSubmit demo_platform alice_on_post 1730000000000 ''yesterday''
           (init_world demo_users demo_posts))) = [''I can't remind you in the past!'']"
proof -
  let ?w = "timeInputForm_onSubmit demo_platform alice_on_post 1730000000000 ''yesterday''
              (init_world demo_users demo_posts)"
  have w: "redis ?w = setDataAfterTimeInput alice_on_post
              \<lparr>reminderTimestamp = Num 1729913600000\<rparr> redis_empty"
      "jobs ?w = []" "toasts ?w = []"
    by (simp_all add: timeInputForm_onSubmit_def parseDate_def demo_platform_def
        init_world_def Let_def)
  have got: "fst (retrieveDataAfterTimeConfirmation alice_on_post (redis ?w))
      = Some \<lparr>reminderTimestamp = Num 1729913600000\<rparr>"
    unfolding w
    by (rule retrieve_after_setData [of _ "''t2_alice''" "''t3_postx''"])
       (simp_all add: alice_on_post_def)
  have past: "date_le (reminderTimestamp \<lparr>reminderTimestamp = Num 1729913600000\<rparr>)
      (Num 1730000005000)"
    by simp
  show ?thesis
    using got past no_job_in_the_past [OF got past, of demo_platform] w by simp
qed

subsection \<open>The scheduler job\<close>

text \<open>
  Claim C3. When the job runs and both \<open>getUserById(userId)\<close> and \<open>getPostById(postId)\<close>
  resolve, exactly one private message is sent. It goes to the user name of the
  resolved user; its subject and text carry the title the post has when the job runs,
  and the text carries the \<open>initTimestamp\<close> of the payload, the time of the confirmation.
  The job body never reads the clock, so the time at which it runs is nowhere in the
  message.
\<close>

theorem onRun_sends_one_message:
  assumes "getUserById w (job_userId e) = Some user"
    and "getPostById w (job_postId e) = Some post"
  shows "sent (onRun P e w) = sent w @
     [\<lparr>pm_to = username user,
       pm_subject = ''Reminder for '' @ [CHR 0x27] @ title post @ [CHR 0x27] @ '' - RemindMe'',
       pm_text = ''Hey! You asked me to remind you about ['' @ title post @ ''](''
                 @ permalink post @ ''). You set this reminder on ''
                 @ toUTCString P (initTimestamp e) @ ''!''\<rparr>]"
  using assms by (simp add: onRun_def APP_NAME_def)

text \<open>
  The witness: Alice asks at time T for "in one hour" and confirms at T + 5s; the title
  of the post is edited afterwards; then the job runs on the payload that was scheduled.
  The message names the edited title and the time T + 5s (in the stand-in for the UTC
  string, the decimal time value).
\<close>

theorem onRun_sends_one_message_witness:
  "getUserById
      (run demo_platform
         [SubmitTimeInput alice_on_post 1730000000000 ''in one hour'',
          SubmitTimeConfirmation alice_on_post 1730000005000,
          RedditChanges demo_users demo_posts_edited]
         (init_world demo_users demo_posts))
      (job_userId \<lparr>job_userId = ''t2_alice'', job_postId = ''t3_postx'',
                   initTimestamp = Num 1730000005000\<rparr>)
     = Some \<lparr>username = ''alice''\<rparr>
   \<and> getPostById
      (run demo_platform
         [SubmitTimeInput alice_on_post 1730000000000 ''in one hour'',
          SubmitTimeConfirmation alice_on_post 1730000005000,
          RedditChanges demo_users demo_posts_edited]
         (init_world demo_users demo_posts))
      (job_postId \<lparr>job_userId = ''t2_alice'', job_postId = ''t3_postx'',
                   initTimestamp = Num 1730000005000\<rparr>)
     = Some \<lparr>title = ''Post X, edited'', permalink = ''/r/test/comments/postx/''\<rparr>
   \<and> sent (onRun demo_platform
        \<lparr>job_userId = ''t2_alice'', job_postId = ''t3_postx'',
         initTimestamp = Num 1730000005000\<rparr>
        (run demo_platform
           [SubmitTimeInput alice_on_post 1730000000000 ''in one hour'',
            SubmitTimeConfirmation alice_on_post 1730000005000,
            RedditChanges demo_users demo_posts_edited]
           (init_world demo_users demo_posts)))
     = [\<lparr>pm_to = ''alice'',
         pm_subject = ''Reminder for '' @ [CHR 0x27] @ ''Post X, edited'' @ [CHR 0x27]
                      @ '' - RemindMe'',
         pm_text = ''Hey! You asked me to remind you about [Post X, edited](/r/test/comments/postx/). You set this reminder on 1730000005000!''\<rparr>]"
proof -
  let ?e = "\<lparr>job_userId = ''t2_alice'', job_postId = ''t3_postx'',
             initTimestamp = Num 1730000005000\<rparr>"
  let ?w = "run demo_platform
         [SubmitTimeInput alice_on_post 1730000000000 ''in one hour'',
          SubmitTimeConfirmation alice_on_post 1730000005000,
          RedditChanges demo_users demo_posts_edited]
         (init_world demo_users demo_posts)"
  have user: "getUserById ?w (job_userId ?e) = Some \<lparr>username = ''alice''\<rparr>"
    by (simp add: run_def demo_users_def)
  have post: "getPostById ?w (job_postId ?e)
      = Some \<lparr>title = ''Post X, edited'', permalink = ''/r/test/comments/postx/''\<rparr>"
    by (simp add: run_def demo_posts_edited_def)
  have none_sent: "sent ?w = []"
    by (simp add: run_def init_world_def timeInputForm_onSubmit_def
        timeConfirmationForm_onSubmit_def parseDate_def demo_platform_def alice_on_post_def
        Let_def split: option.split prod.split)
  have str: "toUTCString demo_platform (Num 1730000005000) = ''1730000005000''"
    by (simp add: demo_platform_def String_def digits.simps digit_char_def)
  show ?thesis
    using user post onRun_sends_one_message [OF user post, of demo_platform] none_sent str
    by simp
qed

text \<open>
  Claim C4. When the job runs and the user or the post does not resolve, the job body
  returns at once: no private message is sent, nothing is shown or raised, and the state
  of every service is the one before.
\<close>

theorem onRun_silent_when_unresolved:
  assumes "getUserById w (job_userId e) = None \<or> getPostById w (job_postId e) = None"
  shows "onRun P e w = w"
  using assms by (auto simp add: onRun_def split: option.splits)

theorem onRun_silent_when_unresolved_witness:
  "(getUserById (init_world demo_users Map.empty)
       (job_userId \<lparr>job_userId = ''t2_alice'', job_postId = ''t3_postx'',
                    initTimestamp = Num 1730000005000\<rparr>) = None
    \<or> getPostById (init_world demo_users Map.empty)
       (job_postId \<lparr>job_userId = ''t2_alice'', job_postId = ''t3_postx'',
                    initTimestamp = Num 1730000005000\<rparr>) = None)
   \<and> onRun demo_platform
        \<lparr>job_userId = ''t2_alice'', job_postId = ''t3_postx'',
         initTimestamp = Num 1730000005000\<rparr>
        (init_world demo_users Map.empty)
      = init_world demo_users Map.empty
   \<and> sent (init_world demo_users Map.empty) = []"
  using onRun_silent_when_unresolved [of "init_world demo_users Map.empty"
      "\<lparr>job_userId = ''t2_alice'', job_postId = ''t3_postx'',
        initTimestamp = Num 1730000005000\<rparr>" demo_platform]
  by (simp add: init_world_def)

subsection \<open>Every scheduled job was created before it is due\<close>

lemma handoff_numeric_empty: "handoff_numeric redis_empty"
  by (simp add: handoff_numeric_def redis_empty_def)

lemma handoff_numeric_setData:
  assumes "handoff_numeric r"
  shows "handoff_numeric (setDataAfterTimeInput c \<lparr>reminderTimestamp = Num t\<rparr> r)"
proof (cases c rule: ids_cases)
  case (present uid pid)
  show ?thesis
    using assms
    by (auto simp add: setData_present [OF present] handoff_numeric_def
        split: option.splits if_splits)
next
  case absent
  then show ?thesis using assms by (simp add: setData_absent)
qed

lemma handoff_numeric_retrieve:
  assumes "handoff_numeric r"
  shows "handoff_numeric (snd (retrieveDataAfterTimeConfirmation c r))"
proof (cases c rule: ids_cases)
  case (present uid pid)
  show ?thesis
    using assms
    by (auto simp add: retrieve_present [OF present] handoff_numeric_def split: if_splits)
next
  case absent
  then show ?thesis using assms by (simp add: retrieve_absent)
qed

lemma handoff_numeric_retrieved:
  assumes "handoff_numeric r" and "fst (retrieveDataAfterTimeConfirmation c r) = Some d"
  shows "\<exists>n. reminderTimestamp d = Num n"
proof -
  from assms(2) obtain uid pid where
    ids: "userId c = Some uid" "postId c = Some pid" "uid \<noteq> []" "pid \<noteq> []"
    by (rule retrieve_Some_ids)
  from assms(2) obtain h s where h: "hashes r (uid @ ''::'' @ pid) = Some h"
    and s: "h ''reminderTimestamp'' = Some s" and d: "d = \<lparr>reminderTimestamp = Number s\<rparr>"
    by (auto simp add: retrieve_present [OF ids] split: option.splits if_splits)
  from assms(1) h s obtain n where "s = String (Num n)"
    unfolding handoff_numeric_def by blast
  then show ?thesis using d by (simp add: Number_String)
qed

lemma handoff_numeric_expires:
  assumes "handoff_numeric r"
  shows "handoff_numeric (redis_key_expires key r)"
  using assms
  by (auto simp add: handoff_numeric_def redis_key_expires_def split: option.splits if_splits)

lemma confirm_redis:
  "redis (timeConfirmationForm_onSubmit P c now w) = redis w
   \<or> redis (timeConfirmationForm_onSubmit P c now w)
       = snd (retrieveDataAfterTimeConfirmation c (redis w))"
  by (simp add: timeConfirmationForm_onSubmit_def Let_def split: option.split prod.split)

lemma confirm_jobs:
  "jobs (timeConfirmationForm_onSubmit P c now w) = jobs w
   \<or> (\<exists>d uid pid. fst (retrieveDataAfterTimeConfirmation c (redis w)) = Some d
        \<and> \<not> date_le (reminderTimestamp d) (Num now)
        \<and> jobs (timeConfirmationForm_onSubmit P c now w) = jobs w @
             [\<lparr>job_name = REMINDER_JOB_NAME, runAt = reminderTimestamp d,
               job_data = \<lparr>job_userId = uid, job_postId = pid, initTimestamp = Num now\<rparr>\<rparr>])"
  by (simp add: timeConfirmationForm_onSubmit_def Let_def split: option.split prod.split)

lemma run_inv_init: "run_inv (init_world users posts)"
  by (simp add: run_inv_def init_world_def handoff_numeric_empty jobs_future_def)

lemma run_inv_input:
  assumes "run_inv w"
  shows "run_inv (timeInputForm_onSubmit P c now timeString w)"
  using assms
  by (simp add: run_inv_def timeInputForm_onSubmit_def Let_def handoff_numeric_setData
      split: option.split)

lemma run_inv_confirm:
  assumes "run_inv w"
  shows "run_inv (timeConfirmationForm_onSubmit P c now w)"
proof -
  let ?w' = "timeConfirmationForm_onSubmit P c now w"
  have "handoff_numeric (redis ?w')"
    using confirm_redis [of P c now w] assms
    by (auto simp add: run_inv_def handoff_numeric_retrieve)
  moreover have "jobs_future (jobs ?w')"
    using confirm_jobs [of P c now w]
  proof
    assume "jobs ?w' = jobs w"
    then show ?thesis using assms by (simp add: run_inv_def)
  next
    assume "\<exists>d uid pid. fst (retrieveDataAfterTimeConfirmation c (redis w)) = Some d
        \<and> \<not> date_le (reminderTimestamp d) (Num now)
        \<and> jobs ?w' = jobs w @
             [\<lparr>job_name = REMINDER_JOB_NAME, runAt = reminderTimestamp d,
               job_data = \<lparr>job_userId = uid, job_postId = pid, initTimestamp = Num now\<rparr>\<rparr>]"
    then obtain d uid pid where
      d: "fst (retrieveDataAfterTimeConfirmation c (redis w)) = Some d"
      and late: "\<not> date_le (reminderTimestamp d) (Num now)"
      and js: "jobs ?w' = jobs w @
             [\<lparr>job_name = REMINDER_JOB_NAME, runAt = reminderTimestamp d,
               job_data = \<lparr>job_userId = uid, job_postId = pid, initTimestamp = Num now\<rparr>\<rparr>]"
      by blast
    from assms d obtain n where n: "reminderTimestamp d = Num n"
      using handoff_numeric_retrieved unfolding run_inv_def by blast
    with late have "now < n" by simp
    then show ?thesis
      using assms js n by (simp add: run_inv_def jobs_future_def)
  qed
  ultimately show ?thesis by (simp add: run_inv_def)
qed

lemma run_inv_onRun:
  assumes "run_inv w"
  shows "run_inv (onRun P e w)"
  using assms by (simp add: run_inv_def onRun_def Let_def split: option.split)

lemma run_inv_step:
  assumes "run_inv w"
  shows "run_inv (step P ev w)"
proof (cases ev)
  case PressMenuItem
  then show ?thesis using assms by (simp add: run_inv_def menuItem_onPress_def)
next
  case (SubmitTimeInput c now timeString)
  then show ?thesis using assms by (simp add: run_inv_input)
next
  case (SubmitTimeConfirmation c now)
  then show ?thesis using assms by (simp add: run_inv_confirm)
next
  case (RunJob e)
  then show ?thesis using assms by (simp add: run_inv_onRun)
next
  case (KeyExpires key)
  then show ?thesis using assms by (simp add: run_inv_def handoff_numeric_expires)
next
  case (RedditChanges users posts)
  then show ?thesis using assms by (simp add: run_inv_def)
qed

lemma run_inv_run:
  assumes "run_inv w"
  shows "run_inv (run P evs w)"
  using assms unfolding run_def
  by (induction evs arbitrary: w) (simp_all add: run_inv_step)

text \<open>
  Claim C10. In every run of the app, every job that the confirmation step has handed to
  the scheduler has an \<open>initTimestamp\<close> strictly before its \<open>runAt\<close>: \<open>initTimestamp\<close> is the
  clock value read at the confirmation, and \<open>runJob\<close> is only reached when the reminder
  time is not at or before that same clock value. The reminder time read back from
  redis is always a time value and never \<open>NaN\<close>, because step 1 is the only writer.
\<close>

theorem scheduled_job_created_before_runAt:
  assumes "j \<in> set (jobs (run P evs (init_world users posts)))"
  shows "number_less (initTimestamp (job_data j)) (runAt j)"
  using run_inv_run [OF run_inv_init, of P evs users posts] assms
  by (simp add: run_inv_def jobs_future_def)

theorem scheduled_job_created_before_runAt_witness:
  "\<lparr>job_name = ''reminder'', runAt = Num 1730003600000,
     job_data = \<lparr>job_userId = ''t2_alice'', job_postId = ''t3_postx'',
                 initTimestamp = Num 1730000005000\<rparr>\<rparr>
     \<in> set (jobs (run demo_platform
           [SubmitTimeInput alice_on_post 1730000000000 ''in one hour'',
            SubmitTimeConfirmation alice_on_post 1730000005000]
           (init_world demo_users demo_posts)))
   \<and> number_less
        (initTimestamp (job_data
           \<lparr>job_name = ''reminder'', runAt = Num 1730003600000,
            job_data = \<lparr>job_userId = ''t2_alice'', job_postId = ''t3_postx'',
                        initTimestamp = Num 1730000005000\<rparr>\<rparr>))
        (runAt
           \<lparr>job_name = ''reminder'', runAt = Num 1730003600000,
            job_data = \<lparr>job_userId = ''t2_alice'', job_postId = ''t3_postx'',
                        initTimestamp = Num 1730000005000\<rparr>\<rparr>)"
proof -
  have scheduled: "\<lparr>job_name = ''reminder'', runAt = Num 1730003600000,
     job_data = \<lparr>job_userId = ''t2_alice'', job_postId = ''t3_postx'',
                 initTimestamp = Num 1730000005000\<rparr>\<rparr>
     \<in> set (jobs (run demo_platform
           [SubmitTimeInput alice_on_post 1730000000000 ''in one hour'',
            SubmitTimeConfirmation alice_on_post 1730000005000]
           (init_world demo_users demo_posts)))"
    by (simp add: run_def parseDate_def demo_platform_def alice_on_post_def init_world_def
        timeInputForm_onSubmit_def timeConfirmationForm_onSubmit_def
        setDataAfterTimeInput_def retrieveDataAfterTimeConfirmation_def
        redis_empty_def redis_hSet_def redis_expire_def redis_hMGet_def redis_del_def Let_def
        Number_String String_not_Nil REMINDER_JOB_NAME_def)
  show ?thesis
    using scheduled scheduled_job_created_before_runAt [OF scheduled] by blast
qed

end
